theory Spec2Isabelle
  imports Complex_Main
begin

section \<open>JavaScript values\<close>

text \<open>
  A JavaScript number is an IEEE double: a finite value (kept here as a rational; the two
  signed zeros are not told apart, both are falsy), one of the two infinities, or NaN.
\<close>

datatype number = NaN | PosInfinity | NegInfinity | Finite rat

text \<open>
  Values of type \<open>any\<close>: what a metadata field of a query hit can hold and what a
  service can throw (\<open>catch (error: any)\<close>).
\<close>

datatype jsval =
    JUndefined
  | JNull
  | JBool bool
  | JNum number
  | JStr string
  | JArr "jsval list"
  | JObj "(string \<times> jsval) list"

text \<open>Truthiness, as \<open>!x\<close> and \<open>x || y\<close> read it.\<close>

fun truthy :: "jsval \<Rightarrow> bool" where
  "truthy JUndefined = False"
| "truthy JNull = False"
| "truthy (JBool b) = b"
| "truthy (JNum n) = (n \<noteq> NaN \<and> n \<noteq> Finite 0)"
| "truthy (JStr s) = (s \<noteq> [])"
| "truthy (JArr xs) = True"
| "truthy (JObj fs) = True"

definition jsOr :: "jsval \<Rightarrow> jsval \<Rightarrow> jsval" where
  "jsOr a b = (if truthy a then a else b)"

text \<open>\<open>s || d\<close> for an optional string \<open>s\<close>: undefined and the empty string are falsy.\<close>

definition strOr :: "string option \<Rightarrow> string \<Rightarrow> string" where
  "strOr s d = (case s of None \<Rightarrow> d | Some t \<Rightarrow> if t = [] then d else t)"

text \<open>
  \<open>m?.key\<close> for an optional \<open>Record<string, any>\<close>: undefined when the record or
  the key is absent.
\<close>

definition optField :: "(string \<times> jsval) list option \<Rightarrow> string \<Rightarrow> jsval" where
  "optField m k =
     (case m of
        None \<Rightarrow> JUndefined
      | Some fs \<Rightarrow> (case map_of fs k of None \<Rightarrow> JUndefined | Some v \<Rightarrow> v))"

text \<open>
  \<open>error.message\<close>: reading a property of \<open>undefined\<close> or \<open>null\<close> throws a
  TypeError (\<open>None\<close>); a primitive or an array has no \<open>message\<close> property.
\<close>

fun errorMessage :: "jsval \<Rightarrow> jsval option" where
  "errorMessage JUndefined = None"
| "errorMessage JNull = None"
| "errorMessage (JObj fs) =
     Some (case map_of fs ''message'' of None \<Rightarrow> JUndefined | Some v \<Rightarrow> v)"
| "errorMessage v = Some JUndefined"

text \<open>\<open>error?.message\<close>: the optional chain gives undefined where the read would throw.\<close>

definition optMessage :: "jsval \<Rightarrow> jsval" where
  "optMessage e = (case errorMessage e of None \<Rightarrow> JUndefined | Some v \<Rightarrow> v)"

section \<open>The external services\<close>

type_synonym embedding = "number list"

text \<open>A hit of \<open>vectorStore.query\<close> (the lambdas of the tools call it \<open>r\<close>).\<close>

record hit =
  r_id :: string
  r_score :: "number option"
  r_metadata :: "(string \<times> jsval) list option"
  r_document :: "string option"

record index_stats =
  stats_count :: number
  stats_dimension :: number
  stats_metric :: "string option"

text \<open>Every request that leaves the process, in the order it is made.\<close>

datatype call =
    EmbedCall string string
  | QueryCall string embedding number
  | UpsertCall string "embedding list" "(string \<times> jsval) list list"
  | ListIndexesCall
  | DescribeIndexCall string
  | CreateIndexCall string number string

text \<open>
  The services are arbitrary: each answer may depend on all the requests made before it,
  and is either a thrown value (\<open>Inl\<close>) or a result of the type the SDK declares.
\<close>

record services =
  embed :: "call list \<Rightarrow> string \<Rightarrow> string \<Rightarrow> jsval + embedding"
  vs_query :: "call list \<Rightarrow> string \<Rightarrow> embedding \<Rightarrow> number \<Rightarrow> jsval + hit list"
  vs_upsert ::
    "call list \<Rightarrow> string \<Rightarrow> embedding list \<Rightarrow> (string \<times> jsval) list list \<Rightarrow> jsval + string list"
  vs_listIndexes :: "call list \<Rightarrow> jsval + string list"
  vs_describeIndex :: "call list \<Rightarrow> string \<Rightarrow> jsval + index_stats"
  vs_createIndex :: "call list \<Rightarrow> string \<Rightarrow> number \<Rightarrow> string \<Rightarrow> jsval + unit"

record env =
  OPENAI_API_KEY :: "string option"
  AZURE_AI_SEARCH_ENDPOINT :: "string option"
  AZURE_AI_SEARCH_CREDENTIAL :: "string option"

text \<open>\<open>!process.env.X\<close>: the variable is unset or empty.\<close>

definition unset :: "string option \<Rightarrow> bool" where
  "unset v = (case v of None \<Rightarrow> True | Some s \<Rightarrow> s = [])"

definition embeddingModel :: string where
  "embeddingModel = ''text-embedding-3-small''"

section \<open>The tools (vector-store-tools.ts)\<close>

record snippet_result =
  position :: nat
  score :: "string option"
  title :: jsval
  content :: string
  category :: jsval

record formatted_result = snippet_result +
  metadata :: "(string \<times> jsval) list option"

text \<open>
  The object a tool returns: one constructor for each object literal of the file, in the
  order of its fields, \<open>success\<close> left out (it is \<open>true\<close> in all but \<open>Failure\<close>).
\<close>

datatype tool_result =
    SearchSuccess string nat "formatted_result list"
  | FilterSuccess string nat "snippet_result list"
  | AddSuccess string "string option" string string
  | ListSuccess nat "string list"
  | StatsSuccess string number number "string option"
  | Failure jsval

fun success :: "tool_result \<Rightarrow> bool" where
  "success (Failure e) = False"
| "success r = True"

text \<open>What an \<open>execute\<close> does: it returns an object, or an exception leaves it.\<close>

datatype 'a outcome = Returned 'a | EscapedTypeError

text \<open>
  The \<open>catch\<close> block of every tool:
  \<open>return { success: false, error: error.message || fallback }\<close>.
\<close>

definition catchBlock :: "jsval \<Rightarrow> string \<Rightarrow> tool_result outcome" where
  "catchBlock error fallback =
     (case errorMessage error of
        None \<Rightarrow> EscapedTypeError
      | Some m \<Rightarrow> Returned (Failure (jsOr m (JStr fallback))))"

definition notConfigured :: tool_result where
  "notConfigured = Failure (JStr ''OpenAI API key is not configured'')"

text \<open>
  The lambda of \<open>formattedResults\<close>; \<open>toFixed\<close> is \<open>Number.prototype.toFixed\<close>,
  a parameter of the model.
\<close>

definition formatResult :: "(number \<Rightarrow> nat \<Rightarrow> string) \<Rightarrow> nat \<times> hit \<Rightarrow> formatted_result" where
  "formatResult toFixed = (\<lambda>(i, r).
     \<lparr> position = i + 1,
       score = map_option (\<lambda>s. toFixed s 4) (r_score r),
       title = jsOr (optField (r_metadata r) ''title'') (JStr ''Untitled''),
       content = strOr (r_document r) ''No content'',
       category = jsOr (optField (r_metadata r) ''category'') (JStr ''No category''),
       metadata = r_metadata r \<rparr>)"

definition searchDocumentsExecute ::
  "(number \<Rightarrow> nat \<Rightarrow> string) \<Rightarrow> env \<Rightarrow> services \<Rightarrow> string \<Rightarrow> string \<Rightarrow> number
     \<Rightarrow> tool_result outcome \<times> call list" where
  "searchDocumentsExecute toFixed e svc query indexName topK =
     (if unset (OPENAI_API_KEY e) then (Returned notConfigured, [])
      else
        let t1 = [EmbedCall embeddingModel query] in
        case embed svc [] embeddingModel query of
          Inl error \<Rightarrow> (catchBlock error ''Error while searching documents'', t1)
        | Inr embedding \<Rightarrow>
            let t2 = t1 @ [QueryCall indexName embedding topK] in
            case vs_query svc t1 indexName embedding topK of
              Inl error \<Rightarrow> (catchBlock error ''Error while searching documents'', t2)
            | Inr results \<Rightarrow>
                (Returned (SearchSuccess query (length results)
                   (map (formatResult toFixed) (enumerate 0 results))), t2))"

text \<open>The lambda of \<open>searchWithFiltersTool\<close>.\<close>

definition snippetResult :: "(number \<Rightarrow> nat \<Rightarrow> string) \<Rightarrow> nat \<times> hit \<Rightarrow> snippet_result" where
  "snippetResult toFixed = (\<lambda>(i, r).
     \<lparr> position = i + 1,
       score = map_option (\<lambda>s. toFixed s 4) (r_score r),
       title = optField (r_metadata r) ''title'',
       content = take 200 (strOr (r_document r) []) @ ''...'',
       category = optField (r_metadata r) ''category'' \<rparr>)"

definition searchWithFiltersExecute ::
  "(number \<Rightarrow> nat \<Rightarrow> string) \<Rightarrow> env \<Rightarrow> services \<Rightarrow> string \<Rightarrow> string \<Rightarrow> number
     \<Rightarrow> tool_result outcome \<times> call list" where
  "searchWithFiltersExecute toFixed e svc query indexName topK =
     (if unset (OPENAI_API_KEY e) then (Returned notConfigured, [])
      else
        let t1 = [EmbedCall embeddingModel query] in
        case embed svc [] embeddingModel query of
          Inl error \<Rightarrow> (catchBlock error ''Error while searching'', t1)
        | Inr embedding \<Rightarrow>
            let t2 = t1 @ [QueryCall indexName embedding topK] in
            case vs_query svc t1 indexName embedding topK of
              Inl error \<Rightarrow> (catchBlock error ''Error while searching'', t2)
            | Inr results \<Rightarrow>
                (Returned (FilterSuccess query (length results)
                   (map (snippetResult toFixed) (enumerate 0 results))), t2))"

text \<open>
  The input schema of both search tools:
  \<open>indexName: z.string().default('knowledge-base')\<close>, \<open>topK: z.number().default(5)\<close>.
  Only the defaults are modelled: an input that the schema refuses (a \<open>topK\<close> that is
  not a number, such as NaN) does not reach \<open>execute\<close> in the tool.
\<close>

record search_input =
  in_query :: string
  in_indexName :: "string option"
  in_topK :: "number option"

definition searchDocumentsTool ::
  "(number \<Rightarrow> nat \<Rightarrow> string) \<Rightarrow> env \<Rightarrow> services \<Rightarrow> search_input \<Rightarrow> tool_result outcome \<times> call list" where
  "searchDocumentsTool toFixed e svc inp =
     searchDocumentsExecute toFixed e svc (in_query inp)
       (case in_indexName inp of None \<Rightarrow> ''knowledge-base'' | Some n \<Rightarrow> n)
       (case in_topK inp of None \<Rightarrow> Finite 5 | Some k \<Rightarrow> k)"

definition searchWithFiltersTool ::
  "(number \<Rightarrow> nat \<Rightarrow> string) \<Rightarrow> env \<Rightarrow> services \<Rightarrow> search_input \<Rightarrow> tool_result outcome \<times> call list" where
  "searchWithFiltersTool toFixed e svc inp =
     searchWithFiltersExecute toFixed e svc (in_query inp)
       (case in_indexName inp of None \<Rightarrow> ''knowledge-base'' | Some n \<Rightarrow> n)
       (case in_topK inp of None \<Rightarrow> Finite 5 | Some k \<Rightarrow> k)"

text \<open>
  \<open>addDocumentTool\<close>. \<open>now\<close> is what \<open>new Date().toISOString()\<close> gives when the
  metadata object is built; \<open>tags || []\<close> replaces only a missing array.
\<close>

definition documentMetadata ::
  "string \<Rightarrow> string \<Rightarrow> string \<Rightarrow> string list \<Rightarrow> string \<Rightarrow> (string \<times> jsval) list" where
  "documentMetadata docTitle docContent docCategory tags now =
     [(''title'', JStr docTitle),
      (''content'', JStr docContent),
      (''category'', JStr docCategory),
      (''tags'', JArr (map JStr tags)),
      (''timestamp'', JStr now)]"

text \<open>The template literal \<open>`${title}\n${content}`\<close>.\<close>

definition embeddedText :: "string \<Rightarrow> string \<Rightarrow> string" where
  "embeddedText docTitle docContent = docTitle @ [CHR 0x0A] @ docContent"

definition addDocumentExecute ::
  "env \<Rightarrow> services \<Rightarrow> string \<Rightarrow> string \<Rightarrow> string \<Rightarrow> string \<Rightarrow> string \<Rightarrow> string list option
     \<Rightarrow> tool_result outcome \<times> call list" where
  "addDocumentExecute e svc now docTitle docContent docCategory indexName tags =
     (if unset (OPENAI_API_KEY e) then (Returned notConfigured, [])
      else
        let t1 = [EmbedCall embeddingModel (embeddedText docTitle docContent)] in
        case embed svc [] embeddingModel (embeddedText docTitle docContent) of
          Inl error \<Rightarrow> (catchBlock error ''Error while adding document'', t1)
        | Inr embedding \<Rightarrow>
            let md = documentMetadata docTitle docContent docCategory
                       (case tags of None \<Rightarrow> [] | Some ts \<Rightarrow> ts) now;
                t2 = t1 @ [UpsertCall indexName [embedding] [md] ] in
            case vs_upsert svc t1 indexName [embedding] [md] of
              Inl error \<Rightarrow> (catchBlock error ''Error while adding document'', t2)
            | Inr ids \<Rightarrow>
                (Returned (AddSuccess ''Document added successfully''
                   (case ids of [] \<Rightarrow> None | documentId # rest \<Rightarrow> Some documentId)
                   docTitle docCategory), t2))"

definition listIndexesExecute :: "services \<Rightarrow> tool_result outcome \<times> call list" where
  "listIndexesExecute svc =
     (case vs_listIndexes svc [] of
        Inl error \<Rightarrow> (catchBlock error ''Error while listing indexes'', [ListIndexesCall])
      | Inr indexes \<Rightarrow> (Returned (ListSuccess (length indexes) indexes), [ListIndexesCall]))"

definition getIndexStatsExecute :: "services \<Rightarrow> string \<Rightarrow> tool_result outcome \<times> call list" where
  "getIndexStatsExecute svc indexName =
     (case vs_describeIndex svc [] indexName of
        Inl error \<Rightarrow>
          (catchBlock error ''Error while getting index statistics'', [DescribeIndexCall indexName])
      | Inr stats \<Rightarrow>
          (Returned (StatsSuccess indexName (stats_count stats) (stats_dimension stats)
             (stats_metric stats)), [DescribeIndexCall indexName]))"

section \<open>The ingestion script (populate-knowledge-base.ts)\<close>

record sample_document =
  doc_title :: string
  doc_content :: string
  doc_category :: string
  doc_tags :: "string list"

text \<open>
  How a run ends: it reaches the end of the \<open>try\<close> block, it calls
  \<open>process.exit(1)\<close>, or the outer \<open>catch\<close> itself throws and the promise of
  \<open>populateKnowledgeBase()\<close>, which nothing awaits, is rejected.
\<close>

datatype run_outcome = Completed | Exit nat | UnhandledRejection

text \<open>\<open>String.prototype.includes\<close>: \<open>s\<close> occurs in \<open>m\<close> as a contiguous run.\<close>

fun strIncludes :: "string \<Rightarrow> string \<Rightarrow> bool" where
  "strIncludes [] s = (s = [])"
| "strIncludes (c # m) s = (take (length s) (c # m) = s \<or> strIncludes m s)"

text \<open>
  \<open>message?.includes(s)\<close>: undefined for a missing message; the substring test on a
  string; membership on an array; any other value has no \<open>includes\<close> method, and
  calling it throws a TypeError (\<open>None\<close>).
\<close>

fun optIncludes :: "jsval \<Rightarrow> string \<Rightarrow> bool option" where
  "optIncludes JUndefined s = Some False"
| "optIncludes JNull s = Some False"
| "optIncludes (JStr m) s = Some (strIncludes m s)"
| "optIncludes (JArr xs) s = Some (JStr s \<in> set xs)"
| "optIncludes v s = None"

definition typeError :: jsval where
  "typeError = JObj [(''name'', JStr ''TypeError''), (''message'', JStr ''not a function'')]"

text \<open>
  The \<open>catch\<close> around \<open>createIndex\<close>: \<open>None\<close> when the error is swallowed and the
  run goes on, otherwise the value thrown on to the outer \<open>catch\<close>.
\<close>

definition createIndexCatch :: "jsval \<Rightarrow> jsval option" where
  "createIndexCatch error =
     (case optIncludes (optMessage error) ''already exists'' of
        None \<Rightarrow> Some typeError
      | Some True \<Rightarrow> None
      | Some False \<Rightarrow> Some error)"

text \<open>
  The outer \<open>catch\<close>: \<open>console.error(..., error.message)\<close> comes first and throws on
  \<open>undefined\<close> and \<open>null\<close>; otherwise \<open>process.exit(1)\<close>.
\<close>

definition outerCatch :: "jsval \<Rightarrow> run_outcome" where
  "outerCatch error = (case errorMessage error of None \<Rightarrow> UnhandledRejection | Some m \<Rightarrow> Exit 1)"

text \<open>The \<open>for\<close> loop over the documents; the pauses between requests are not modelled.\<close>

fun embedDocuments ::
  "services \<Rightarrow> call list \<Rightarrow> sample_document list \<Rightarrow> embedding list
     \<Rightarrow> (jsval + embedding list) \<times> call list" where
  "embedDocuments svc t [] embeddings = (Inr embeddings, t)"
| "embedDocuments svc t (doc # docs) embeddings =
     (let v = embeddedText (doc_title doc) (doc_content doc) in
      case embed svc t embeddingModel v of
        Inl error \<Rightarrow> (Inl error, t @ [EmbedCall embeddingModel v])
      | Inr embedding \<Rightarrow>
          embedDocuments svc (t @ [EmbedCall embeddingModel v]) docs (embeddings @ [embedding]))"

text \<open>
  Steps 2 to 6 of the script, from the requests \<open>t0\<close> made so far; \<open>clock i\<close> is the
  time read for the \<open>i\<close>-th document. Console output is not modelled.
\<close>

definition ingest ::
  "services \<Rightarrow> (nat \<Rightarrow> string) \<Rightarrow> sample_document list \<Rightarrow> string \<Rightarrow> call list
     \<Rightarrow> run_outcome \<times> call list" where
  "ingest svc clock sampleDocuments indexName t0 =
     (case embedDocuments svc t0 sampleDocuments [] of
        (Inl error, t1) \<Rightarrow> (outerCatch error, t1)
      | (Inr embeddings, t1) \<Rightarrow>
          let md = map (\<lambda>(i, doc). documentMetadata (doc_title doc) (doc_content doc)
                          (doc_category doc) (doc_tags doc) (clock i))
                     (enumerate 0 sampleDocuments);
              t2 = t1 @ [UpsertCall indexName embeddings md] in
          case vs_upsert svc t1 indexName embeddings md of
            Inl error \<Rightarrow> (outerCatch error, t2)
          | Inr ids \<Rightarrow>
              (case vs_describeIndex svc t2 indexName of
                 Inl error \<Rightarrow> (outerCatch error, t2 @ [DescribeIndexCall indexName])
               | Inr stats \<Rightarrow> (Completed, t2 @ [DescribeIndexCall indexName])))"

definition populateKnowledgeBase ::
  "env \<Rightarrow> services \<Rightarrow> (nat \<Rightarrow> string) \<Rightarrow> sample_document list \<Rightarrow> run_outcome \<times> call list" where
  "populateKnowledgeBase e svc clock sampleDocuments =
     (if unset (AZURE_AI_SEARCH_ENDPOINT e) \<or> unset (AZURE_AI_SEARCH_CREDENTIAL e)
      then (Exit 1, [])
      else if unset (OPENAI_API_KEY e) then (Exit 1, [])
      else
        let indexName = ''knowledge-base'';
            t0 = [CreateIndexCall indexName (Finite 1536) ''cosine''] in
        case (case vs_createIndex svc [] indexName (Finite 1536) ''cosine'' of
                Inr u \<Rightarrow> None
              | Inl error \<Rightarrow> createIndexCatch error) of
          Some error \<Rightarrow> (outerCatch error, t0)
        | None \<Rightarrow> ingest svc clock sampleDocuments indexName t0)"

section \<open>The memory of the agent (knowledge-memory-agent.ts)\<close>

text \<open>The options the agent passes to \<open>new Memory\<close>.\<close>

record semantic_recall =
  topK :: nat
  messageRange :: nat
  scope :: string

record working_memory =
  wm_enabled :: bool
  wm_scope :: string

record memory_options =
  lastMessages :: nat
  semanticRecall :: semantic_recall
  workingMemory :: working_memory
  threads_generateTitle :: bool

definition memoryOptions :: memory_options where
  "memoryOptions =
     \<lparr> lastMessages = 20,
       semanticRecall = \<lparr> topK = 5, messageRange = 2, scope = ''resource'' \<rparr>,
       workingMemory = \<lparr> wm_enabled = True, wm_scope = ''resource'' \<rparr>,
       threads_generateTitle = True \<rparr>"

subsection \<open>The recall window builder\<close>

text \<open>
  Modelled from the spec: the \<open>Memory\<close> class that reads these options is not among the
  source files; the agent only constructs it. A ConversationMessage of the spec's data
  model; the content store is the list of the messages in conversation order.
\<close>

record message =
  msg_id :: string
  thread_id :: string
  resource_id :: string
  msg_content :: string
  created_at :: nat

text \<open>
  Modelled from the spec: the position (from 1) of the message a hit points to, in the
  original conversation order; none for a dangling reference. The lookup is part of the
  missing \<open>Memory\<close> class.
\<close>

fun positionOf :: "message list \<Rightarrow> string \<Rightarrow> nat option" where
  "positionOf [] i = None"
| "positionOf (m # ms) i =
     (if msg_id m = i then Some 1 else map_option Suc (positionOf ms i))"

text \<open>
  Modelled from the spec: the N most recent messages (\<open>lastMessages\<close>), which the
  missing \<open>Memory\<close> class always includes.
\<close>

definition lastN :: "nat \<Rightarrow> 'a list \<Rightarrow> 'a list" where
  "lastN n xs = drop (length xs - n) xs"

text \<open>
  Modelled from the spec: step 3 of the missing recall window builder, Expand: the hit plus
  \<open>messageRange\<close> neighbours immediately before and after it in original conversation
  order, as message ids.
\<close>

definition expand :: "nat \<Rightarrow> message list \<Rightarrow> string \<Rightarrow> string list" where
  "expand r store hit =
     (case positionOf store hit of
        None \<Rightarrow> [hit]
      | Some p \<Rightarrow>
          map msg_id (lastN r (take (p - 1) store) @ [store ! (p - 1)] @
                      take r (drop p store)))"

text \<open>
  Modelled from the spec: step 4 of the missing recall window builder, Resolve: the full
  message for each id, from the content store; an id that does not resolve is skipped.
\<close>

fun resolve :: "message list \<Rightarrow> string list \<Rightarrow> message list" where
  "resolve store [] = []"
| "resolve store (i # ids) =
     (case find (\<lambda>m. msg_id m = i) store of
        None \<Rightarrow> resolve store ids
      | Some m \<Rightarrow> m # resolve store ids)"

text \<open>
  Modelled from the spec: steps 3 to 5 of the missing recall window builder, from the hits
  of the similarity query: expand each hit, collapse duplicate ids, resolve, and sort by
  the original sequence.
\<close>

definition recallWindow :: "memory_options \<Rightarrow> message list \<Rightarrow> string list \<Rightarrow> message list" where
  "recallWindow opts store hits =
     sort_key created_at
       (resolve store
          (remdups (concat (map (expand (messageRange (semanticRecall opts)) store) hits))))"

text \<open>
  Modelled from the spec: step 6 of the missing recall window builder, Emit: the ordered
  window and, beside it, the always-included most recent messages.
\<close>

record recall_context =
  recalled :: "message list"
  recent :: "message list"

definition emit :: "memory_options \<Rightarrow> message list \<Rightarrow> string list \<Rightarrow> recall_context" where
  "emit opts store hits =
     \<lparr> recalled = recallWindow opts store hits,
       recent = lastN (lastMessages opts) store \<rparr>"

section \<open>Conditions on hits and errors\<close>


text \<open>
  The message of a thrown value contains \<open>already exists\<close>: as a substring when the
  message is a string, as an element when it is an array.
\<close>

definition alreadyExists :: "jsval \<Rightarrow> bool" where
  "alreadyExists error =
     (case optMessage error of
        JStr m \<Rightarrow> strIncludes m ''already exists''
      | JArr xs \<Rightarrow> JStr ''already exists'' \<in> set xs
      | _ \<Rightarrow> False)"

text \<open>
  The \<open>topK\<close> of an input is absent or a finite number, and it is a finite number that is
  not positive. The input schema \<open>z.number()\<close> accepts every finite number.
\<close>

definition finiteTopK :: "search_input \<Rightarrow> bool" where
  "finiteTopK inp =
     (case in_topK inp of None \<Rightarrow> True | Some (Finite r) \<Rightarrow> True | Some other \<Rightarrow> False)"

definition nonPositiveTopK :: "search_input \<Rightarrow> bool" where
  "nonPositiveTopK inp =
     (case in_topK inp of Some (Finite r) \<Rightarrow> r \<le> 0 | other \<Rightarrow> False)"

section \<open>Example inputs\<close>

text \<open>A configured environment, services that always answer, and a few hits.\<close>

definition exampleEnv :: env where
  "exampleEnv =
     \<lparr> OPENAI_API_KEY = Some ''sk-example'',
       AZURE_AI_SEARCH_ENDPOINT = Some ''https://example.search.windows.net'',
       AZURE_AI_SEARCH_CREDENTIAL = Some ''admin-key'' \<rparr>"

definition exampleServices :: "hit list \<Rightarrow> services" where
  "exampleServices hits =
     \<lparr> embed = (\<lambda>t m v. Inr [Finite 1]),
       vs_query = (\<lambda>t n q k. Inr hits),
       vs_upsert = (\<lambda>t n vs ms. Inr [''doc-1'']),
       vs_listIndexes = (\<lambda>t. Inr [''knowledge-base'']),
       vs_describeIndex = (\<lambda>t n. Inr \<lparr> stats_count = Finite 1, stats_dimension = Finite 1536,
                                          stats_metric = Some ''cosine'' \<rparr>),
       vs_createIndex = (\<lambda>t n d m. Inr ()) \<rparr>"

definition exampleToFixed :: "number \<Rightarrow> nat \<Rightarrow> string" where
  "exampleToFixed n d = ''0.9000''"

definition shortHit :: hit where
  "shortHit = \<lparr> r_id = ''1'', r_score = Some (Finite (9 / 10)), r_metadata = None,
                r_document = Some ''abc'' \<rparr>"

definition longHit :: hit where
  "longHit = \<lparr> r_id = ''2'', r_score = None, r_metadata = None,
               r_document = Some (replicate 250 CHR ''x'') \<rparr>"

definition titledHit :: hit where
  "titledHit = \<lparr> r_id = ''3'', r_score = Some (Finite (9 / 10)),
                 r_metadata = Some [(''title'', JStr ''Vector Databases''),
                                    (''category'', JStr ''technology'')],
                 r_document = Some ''Vector databases are specialized systems'' \<rparr>"


definition unconfiguredEnv :: env where
  "unconfiguredEnv =
     \<lparr> OPENAI_API_KEY = None,
       AZURE_AI_SEARCH_ENDPOINT = Some ''https://example.search.windows.net'',
       AZURE_AI_SEARCH_CREDENTIAL = Some ''admin-key'' \<rparr>"

text \<open>Services that reject every request with the same value.\<close>

definition rejectingServices :: "jsval \<Rightarrow> services" where
  "rejectingServices x =
     \<lparr> embed = (\<lambda>t m v. Inl x),
       vs_query = (\<lambda>t n q k. Inl x),
       vs_upsert = (\<lambda>t n vs ms. Inl x),
       vs_listIndexes = (\<lambda>t. Inl x),
       vs_describeIndex = (\<lambda>t n. Inl x),
       vs_createIndex = (\<lambda>t n d m. Inl x) \<rparr>"

definition failingCreateIndex :: "jsval \<Rightarrow> services" where
  "failingCreateIndex x = (exampleServices []) \<lparr> vs_createIndex := (\<lambda>t n d m. Inl x) \<rparr>"

definition existsError :: jsval where
  "existsError = JObj [(''name'', JStr ''RestError''),
                       (''message'', JStr ''Index knowledge-base already exists'')]"

definition forbiddenError :: jsval where
  "forbiddenError = JObj [(''name'', JStr ''RestError''), (''message'', JStr ''Forbidden'')]"

definition exampleDocument :: sample_document where
  "exampleDocument = \<lparr> doc_title = ''Vector Databases'', doc_content = ''Specialized systems'',
                        doc_category = ''technology'', doc_tags = [''vectors''] \<rparr>"

definition exampleClock :: "nat \<Rightarrow> string" where
  "exampleClock i = ''2025-01-01T00:00:00.000Z''"

text \<open>A thread of twelve messages.\<close>

definition exampleThread :: "message list" where
  "exampleThread =
     [\<lparr> msg_id = ''m01'', thread_id = ''t1'', resource_id = ''u1'', msg_content = ''message 1'', created_at = 1 \<rparr>,
      \<lparr> msg_id = ''m02'', thread_id = ''t1'', resource_id = ''u1'', msg_content = ''message 2'', created_at = 2 \<rparr>,
      \<lparr> msg_id = ''m03'', thread_id = ''t1'', resource_id = ''u1'', msg_content = ''message 3'', created_at = 3 \<rparr>,
      \<lparr> msg_id = ''m04'', thread_id = ''t1'', resource_id = ''u1'', msg_content = ''message 4'', created_at = 4 \<rparr>,
      \<lparr> msg_id = ''m05'', thread_id = ''t1'', resource_id = ''u1'', msg_content = ''message 5'', created_at = 5 \<rparr>,
      \<lparr> msg_id = ''m06'', thread_id = ''t1'', resource_id = ''u1'', msg_content = ''message 6'', created_at = 6 \<rparr>,
      \<lparr> msg_id = ''m07'', thread_id = ''t1'', resource_id = ''u1'', msg_content = ''message 7'', created_at = 7 \<rparr>,
      \<lparr> msg_id = ''m08'', thread_id = ''t1'', resource_id = ''u1'', msg_content = ''message 8'', created_at = 8 \<rparr>,
      \<lparr> msg_id = ''m09'', thread_id = ''t1'', resource_id = ''u1'', msg_content = ''message 9'', created_at = 9 \<rparr>,
      \<lparr> msg_id = ''m10'', thread_id = ''t1'', resource_id = ''u1'', msg_content = ''message 10'', created_at = 10 \<rparr>,
      \<lparr> msg_id = ''m11'', thread_id = ''t1'', resource_id = ''u1'', msg_content = ''message 11'', created_at = 11 \<rparr>,
      \<lparr> msg_id = ''m12'', thread_id = ''t1'', resource_id = ''u1'', msg_content = ''message 12'', created_at = 12 \<rparr>]"

section \<open>Properties of the search tools\<close>

lemma exampleEnv_configured: "\<not> unset (OPENAI_API_KEY exampleEnv)"
  by (simp add: exampleEnv_def unset_def)

text \<open>The run of a search tool when the key is set and both services answer.\<close>

lemma searchDocuments_success:
  assumes "\<not> unset (OPENAI_API_KEY e)"
    and "embed svc [] embeddingModel q = Inr v"
    and "vs_query svc [EmbedCall embeddingModel q] idx v k = Inr hits"
  shows "searchDocumentsExecute tf e svc q idx k =
           (Returned (SearchSuccess q (length hits) (map (formatResult tf) (enumerate 0 hits))),
            [EmbedCall embeddingModel q, QueryCall idx v k])"
  using assms by (simp add: searchDocumentsExecute_def)

lemma searchWithFilters_success:
  assumes "\<not> unset (OPENAI_API_KEY e)"
    and "embed svc [] embeddingModel q = Inr v"
    and "vs_query svc [EmbedCall embeddingModel q] idx v k = Inr hits"
  shows "searchWithFiltersExecute tf e svc q idx k =
           (Returned (FilterSuccess q (length hits) (map (snippetResult tf) (enumerate 0 hits))),
            [EmbedCall embeddingModel q, QueryCall idx v k])"
  using assms by (simp add: searchWithFiltersExecute_def)

lemma snippetResult_nth:
  "i < length hits \<Longrightarrow>
     map (snippetResult tf) (enumerate 0 hits) ! i = snippetResult tf (i, hits ! i)"
  by (simp add: nth_enumerate_eq)

lemma searchWithFilters_example:
  "searchWithFiltersExecute tf exampleEnv (exampleServices hits) q idx k =
     (Returned (FilterSuccess q (length hits) (map (snippetResult tf) (enumerate 0 hits))),
      [EmbedCall embeddingModel q, QueryCall idx [Finite 1] k])"
  by (rule searchWithFilters_success[OF exampleEnv_configured]) (simp_all add: exampleServices_def)

lemma searchDocuments_example:
  "searchDocumentsExecute tf exampleEnv (exampleServices hits) q idx k =
     (Returned (SearchSuccess q (length hits) (map (formatResult tf) (enumerate 0 hits))),
      [EmbedCall embeddingModel q, QueryCall idx [Finite 1] k])"
  by (rule searchDocuments_success[OF exampleEnv_configured]) (simp_all add: exampleServices_def)

subsection \<open>Snippets\<close>

text \<open>
  C1, as the claim states it, fails: a hit whose document is the three characters
  \<open>abc\<close> is not returned unmodified by \<open>searchWithFilters\<close>; its content is
  \<open>abc...\<close>.
\<close>

theorem snippet_short_content_counterexample:
  "length ''abc'' \<le> 200 \<and>
   searchWithFiltersExecute exampleToFixed exampleEnv (exampleServices [shortHit])
       ''abc'' ''knowledge-base'' (Finite 5) =
     (Returned (FilterSuccess ''abc'' 1
        [\<lparr> position = 1, score = Some ''0.9000'', title = JUndefined, content = ''abc...'',
           category = JUndefined \<rparr>]),
      [EmbedCall embeddingModel ''abc'', QueryCall ''knowledge-base'' [Finite 1] (Finite 5)]) \<and>
   ''abc...'' \<noteq> ''abc''"
  by (simp add: searchWithFilters_example)
     (simp add: shortHit_def snippetResult_def enumerate_eq_zip exampleToFixed_def strOr_def
        optField_def)

text \<open>
  C1, amended: for every hit that \<open>searchWithFilters\<close> returns, the content is the first
  200 units of the hit's document (the empty string when the hit has none) followed by the
  three-character marker \<open>...\<close>, whatever the length of the document. So a document
  longer than 200 units gives exactly its first 200 units and the marker (203 units), and a
  document of at most 200 units gives the whole document and the marker.
\<close>

theorem snippet_truncation:
  assumes "\<not> unset (OPENAI_API_KEY e)"
    and "embed svc [] embeddingModel q = Inr v"
    and "vs_query svc [EmbedCall embeddingModel q] idx v k = Inr hits"
    and "i < length hits"
    and "searchWithFiltersExecute tf e svc q idx k = (Returned (FilterSuccess q' n rs), t)"
    and "d = strOr (r_document (hits ! i)) []"
  shows "content (rs ! i) = take 200 d @ ''...'' \<and>
         (200 < length d \<longrightarrow>
            length (content (rs ! i)) = 203 \<and> take 200 (content (rs ! i)) = take 200 d \<and>
            drop 200 (content (rs ! i)) = ''...'') \<and>
         (length d \<le> 200 \<longrightarrow> content (rs ! i) = d @ ''...'')"
proof -
  have "rs = map (snippetResult tf) (enumerate 0 hits)"
    using assms(5) searchWithFilters_success[OF assms(1,2,3), of tf] by simp
  then have "rs ! i = snippetResult tf (i, hits ! i)"
    using snippetResult_nth[OF assms(4)] by simp
  then have c: "content (rs ! i) = take 200 d @ ''...''"
    by (simp add: snippetResult_def assms(6))
  show ?thesis
    by (simp add: c)
qed

theorem snippet_truncation_witness:
  "content (map (snippetResult exampleToFixed) (enumerate 0 [shortHit, longHit]) ! 1) =
     replicate 200 CHR ''x'' @ ''...'' \<and>
   length (content (map (snippetResult exampleToFixed) (enumerate 0 [shortHit, longHit]) ! 1)) = 203"
proof -
  have e: "embed (exampleServices [shortHit, longHit]) [] embeddingModel ''q'' = Inr [Finite 1]"
    by (simp add: exampleServices_def)
  have h: "vs_query (exampleServices [shortHit, longHit]) [EmbedCall embeddingModel ''q'']
             ''knowledge-base'' [Finite 1] (Finite 5) = Inr [shortHit, longHit]"
    by (simp add: exampleServices_def)
  have i: "(1::nat) < length [shortHit, longHit]"
    by simp
  have d: "replicate 250 CHR ''x'' = strOr (r_document ([shortHit, longHit] ! 1)) []"
    by (simp add: longHit_def strOr_def)
  from snippet_truncation[OF exampleEnv_configured e h i searchWithFilters_example d]
  show ?thesis
    by simp
qed

subsection \<open>Ranked results\<close>

text \<open>
  C5: with the key set and both services answering, \<open>searchDocuments\<close> queries the index
  with the given \<open>topK\<close>, or 5 when none is given, and returns one display record for
  each hit, in the order of the hits: the record at index \<open>i\<close> has position \<open>i + 1\<close>
  and carries the score (to four decimals), title, content, category and the raw metadata
  of the hit at index \<open>i\<close>.
\<close>

theorem search_ranked_results:
  assumes "\<not> unset (OPENAI_API_KEY e)"
    and "k = (case in_topK inp of None \<Rightarrow> Finite 5 | Some k \<Rightarrow> k)"
    and "idx = (case in_indexName inp of None \<Rightarrow> ''knowledge-base'' | Some n \<Rightarrow> n)"
    and "embed svc [] embeddingModel (in_query inp) = Inr v"
    and "vs_query svc [EmbedCall embeddingModel (in_query inp)] idx v k = Inr hits"
  shows "\<exists>rs. searchDocumentsTool tf e svc inp =
             (Returned (SearchSuccess (in_query inp) (length hits) rs),
              [EmbedCall embeddingModel (in_query inp), QueryCall idx v k]) \<and>
           length rs = length hits \<and>
           (\<forall>i < length hits.
              position (rs ! i) = i + 1 \<and>
              score (rs ! i) = map_option (\<lambda>s. tf s 4) (r_score (hits ! i)) \<and>
              title (rs ! i) = jsOr (optField (r_metadata (hits ! i)) ''title'') (JStr ''Untitled'') \<and>
              content (rs ! i) = strOr (r_document (hits ! i)) ''No content'' \<and>
              category (rs ! i) =
                jsOr (optField (r_metadata (hits ! i)) ''category'') (JStr ''No category'') \<and>
              metadata (rs ! i) = r_metadata (hits ! i))"
proof -
  let ?rs = "map (formatResult tf) (enumerate 0 hits)"
  have run: "searchDocumentsTool tf e svc inp =
      (Returned (SearchSuccess (in_query inp) (length hits) ?rs),
       [EmbedCall embeddingModel (in_query inp), QueryCall idx v k])"
    unfolding searchDocumentsTool_def assms(2)[symmetric] assms(3)[symmetric]
    by (rule searchDocuments_success[OF assms(1) assms(4) assms(5)])
  have "\<forall>i < length hits.
          position (?rs ! i) = i + 1 \<and>
          score (?rs ! i) = map_option (\<lambda>s. tf s 4) (r_score (hits ! i)) \<and>
          title (?rs ! i) = jsOr (optField (r_metadata (hits ! i)) ''title'') (JStr ''Untitled'') \<and>
          content (?rs ! i) = strOr (r_document (hits ! i)) ''No content'' \<and>
          category (?rs ! i) =
            jsOr (optField (r_metadata (hits ! i)) ''category'') (JStr ''No category'') \<and>
          metadata (?rs ! i) = r_metadata (hits ! i)"
    by (simp add: formatResult_def nth_enumerate_eq)
  moreover have "length ?rs = length hits"
    by simp
  ultimately show ?thesis
    using run by blast
qed

theorem search_ranked_results_witness:
  "\<exists>rs. searchDocumentsTool exampleToFixed exampleEnv (exampleServices [shortHit, titledHit])
            \<lparr> in_query = ''vectors'', in_indexName = None, in_topK = None \<rparr> =
          (Returned (SearchSuccess ''vectors'' 2 rs),
           [EmbedCall embeddingModel ''vectors'',
            QueryCall ''knowledge-base'' [Finite 1] (Finite 5)]) \<and>
        position (rs ! 1) = 2 \<and> score (rs ! 1) = Some ''0.9000'' \<and>
        title (rs ! 1) = JStr ''Vector Databases'' \<and>
        content (rs ! 1) = ''Vector databases are specialized systems'' \<and>
        category (rs ! 1) = JStr ''technology'' \<and>
        metadata (rs ! 1) = r_metadata titledHit"
proof -
  let ?inp = "\<lparr> in_query = ''vectors'', in_indexName = None, in_topK = None \<rparr>"
  have k: "Finite 5 = (case in_topK ?inp of None \<Rightarrow> Finite 5 | Some k \<Rightarrow> k)"
    by simp
  have n: "''knowledge-base'' =
             (case in_indexName ?inp of None \<Rightarrow> ''knowledge-base'' | Some n \<Rightarrow> n)"
    by simp
  have e: "embed (exampleServices [shortHit, titledHit]) [] embeddingModel (in_query ?inp) =
             Inr [Finite 1]"
    by (simp add: exampleServices_def)
  have h: "vs_query (exampleServices [shortHit, titledHit])
             [EmbedCall embeddingModel (in_query ?inp)] ''knowledge-base'' [Finite 1] (Finite 5) =
             Inr [shortHit, titledHit]"
    by (simp add: exampleServices_def)
  from search_ranked_results[OF exampleEnv_configured k n e h, of exampleToFixed]
  obtain rs where run: "searchDocumentsTool exampleToFixed exampleEnv
        (exampleServices [shortHit, titledHit]) ?inp =
          (Returned (SearchSuccess (in_query ?inp) (length [shortHit, titledHit]) rs),
           [EmbedCall embeddingModel (in_query ?inp),
            QueryCall ''knowledge-base'' [Finite 1] (Finite 5)])"
    and each: "\<forall>i < length [shortHit, titledHit].
        position (rs ! i) = i + 1 \<and>
        score (rs ! i) = map_option (\<lambda>s. exampleToFixed s 4) (r_score ([shortHit, titledHit] ! i)) \<and>
        title (rs ! i) =
          jsOr (optField (r_metadata ([shortHit, titledHit] ! i)) ''title'') (JStr ''Untitled'') \<and>
        content (rs ! i) = strOr (r_document ([shortHit, titledHit] ! i)) ''No content'' \<and>
        category (rs ! i) =
          jsOr (optField (r_metadata ([shortHit, titledHit] ! i)) ''category'')
            (JStr ''No category'') \<and>
        metadata (rs ! i) = r_metadata ([shortHit, titledHit] ! i)"
    by blast
  have "(1::nat) < length [shortHit, titledHit]"
    by simp
  with each have
    "position (rs ! 1) = 2 \<and> score (rs ! 1) = Some ''0.9000'' \<and>
     title (rs ! 1) = JStr ''Vector Databases'' \<and>
     content (rs ! 1) = ''Vector databases are specialized systems'' \<and>
     category (rs ! 1) = JStr ''technology'' \<and>
     metadata (rs ! 1) = r_metadata titledHit"
    by (simp add: titledHit_def exampleToFixed_def optField_def jsOr_def strOr_def)
  with run show ?thesis
    by (intro exI[of _ rs]) simp
qed


lemma catchBlock_not_success: "catchBlock error fallback = Returned r \<Longrightarrow> \<not> success r"
  by (auto simp: catchBlock_def split: option.splits)

subsection \<open>Defaults for missing fields\<close>




subsection \<open>The reported count\<close>

lemma searchDocuments_success_inv:
  assumes "searchDocumentsExecute tf e svc q idx k = (Returned r, t)" and "success r"
  shows "\<exists>v hits. embed svc [] embeddingModel q = Inr v \<and>
           vs_query svc [EmbedCall embeddingModel q] idx v k = Inr hits \<and>
           r = SearchSuccess q (length hits) (map (formatResult tf) (enumerate 0 hits))"
  using assms
  by (auto simp: searchDocumentsExecute_def notConfigured_def Let_def
      dest: catchBlock_not_success split: if_splits sum.splits)

lemma searchWithFilters_success_inv:
  assumes "searchWithFiltersExecute tf e svc q idx k = (Returned r, t)" and "success r"
  shows "\<exists>v hits. embed svc [] embeddingModel q = Inr v \<and>
           vs_query svc [EmbedCall embeddingModel q] idx v k = Inr hits \<and>
           r = FilterSuccess q (length hits) (map (snippetResult tf) (enumerate 0 hits))"
  using assms
  by (auto simp: searchWithFiltersExecute_def notConfigured_def Let_def
      dest: catchBlock_not_success split: if_splits sum.splits)

text \<open>
  C10: whenever \<open>searchDocuments\<close> or \<open>searchWithFilters\<close> returns a result with
  \<open>success: true\<close>, the index query answered with some hits, and \<open>resultsCount\<close>,
  the length of \<open>results\<close> and the number of hits are the same number.
\<close>

theorem results_count:
  "(searchDocumentsExecute tf e svc q idx k = (Returned r, t) \<and> success r \<longrightarrow>
      (\<exists>v hits rs. embed svc [] embeddingModel q = Inr v \<and>
         vs_query svc [EmbedCall embeddingModel q] idx v k = Inr hits \<and>
         r = SearchSuccess q (length rs) rs \<and> length rs = length hits)) \<and>
   (searchWithFiltersExecute tf e svc q idx k = (Returned r', t') \<and> success r' \<longrightarrow>
      (\<exists>v hits rs. embed svc [] embeddingModel q = Inr v \<and>
         vs_query svc [EmbedCall embeddingModel q] idx v k = Inr hits \<and>
         r' = FilterSuccess q (length rs) rs \<and> length rs = length hits))"
proof (intro conjI impI)
  assume "searchDocumentsExecute tf e svc q idx k = (Returned r, t) \<and> success r"
  then obtain v hits where "embed svc [] embeddingModel q = Inr v"
    "vs_query svc [EmbedCall embeddingModel q] idx v k = Inr hits"
    "r = SearchSuccess q (length hits) (map (formatResult tf) (enumerate 0 hits))"
    using searchDocuments_success_inv by blast
  then show "\<exists>v hits rs. embed svc [] embeddingModel q = Inr v \<and>
         vs_query svc [EmbedCall embeddingModel q] idx v k = Inr hits \<and>
         r = SearchSuccess q (length rs) rs \<and> length rs = length hits"
    by (intro exI[of _ v] exI[of _ hits] exI[of _ "map (formatResult tf) (enumerate 0 hits)"]) simp
next
  assume "searchWithFiltersExecute tf e svc q idx k = (Returned r', t') \<and> success r'"
  then obtain v hits where "embed svc [] embeddingModel q = Inr v"
    "vs_query svc [EmbedCall embeddingModel q] idx v k = Inr hits"
    "r' = FilterSuccess q (length hits) (map (snippetResult tf) (enumerate 0 hits))"
    using searchWithFilters_success_inv by blast
  then show "\<exists>v hits rs. embed svc [] embeddingModel q = Inr v \<and>
         vs_query svc [EmbedCall embeddingModel q] idx v k = Inr hits \<and>
         r' = FilterSuccess q (length rs) rs \<and> length rs = length hits"
    by (intro exI[of _ v] exI[of _ hits] exI[of _ "map (snippetResult tf) (enumerate 0 hits)"]) simp
qed


theorem results_count_witness:
  "\<exists>hits rs.
      vs_query (exampleServices [shortHit, titledHit]) [EmbedCall embeddingModel ''q'']
        ''knowledge-base'' [Finite 1] (Finite 5) = Inr hits \<and>
      fst (searchDocumentsExecute exampleToFixed exampleEnv (exampleServices [shortHit, titledHit])
             ''q'' ''knowledge-base'' (Finite 5)) = Returned (SearchSuccess ''q'' (length rs) rs) \<and>
      length rs = length hits \<and> length hits = 2"
proof -
  let ?svc = "exampleServices [shortHit, titledHit]"
  let ?r = "SearchSuccess ''q'' (length [shortHit, titledHit])
              (map (formatResult exampleToFixed) (enumerate 0 [shortHit, titledHit]))"
  have run: "searchDocumentsExecute exampleToFixed exampleEnv ?svc ''q'' ''knowledge-base'' (Finite 5) =
      (Returned ?r, [EmbedCall embeddingModel ''q'', QueryCall ''knowledge-base'' [Finite 1] (Finite 5)])"
    by (rule searchDocuments_example)
  have ok: "success ?r"
    by simp
  from results_count[of exampleToFixed exampleEnv ?svc "''q''" "''knowledge-base''" "Finite 5" ?r
      "[EmbedCall embeddingModel ''q'', QueryCall ''knowledge-base'' [Finite 1] (Finite 5)]"]
    run ok
  obtain v hits rs where e: "embed ?svc [] embeddingModel ''q'' = Inr v"
    and h: "vs_query ?svc [EmbedCall embeddingModel ''q''] ''knowledge-base'' v (Finite 5) = Inr hits"
    and r: "?r = SearchSuccess ''q'' (length rs) rs" and l: "length rs = length hits"
    by blast
  from e have v: "v = [Finite 1]"
    by (simp add: exampleServices_def)
  from h have hs: "hits = [shortHit, titledHit]"
    by (simp add: exampleServices_def)
  show ?thesis
    using h r l run unfolding v hs
    by (intro exI[of _ "[shortHit, titledHit]"] exI[of _ rs]) simp
qed

subsection \<open>The missing credential\<close>

text \<open>
  C6: when \<open>OPENAI_API_KEY\<close> is unset (or empty), \<open>searchDocuments\<close>,
  \<open>addDocument\<close> and \<open>searchWithFilters\<close> return
  \<open>{success: false, error: 'OpenAI API key is not configured'}\<close> and make no request at
  all: neither an embedding request nor a request to the vector store.
\<close>

theorem missing_credential_fails_fast:
  assumes "unset (OPENAI_API_KEY e)"
  shows "searchDocumentsExecute tf e svc q idx k =
           (Returned (Failure (JStr ''OpenAI API key is not configured'')), []) \<and>
         addDocumentExecute e svc now docTitle docContent docCategory idx tags =
           (Returned (Failure (JStr ''OpenAI API key is not configured'')), []) \<and>
         searchWithFiltersExecute tf e svc q idx k =
           (Returned (Failure (JStr ''OpenAI API key is not configured'')), []) \<and>
         \<not> success (Failure (JStr ''OpenAI API key is not configured''))"
  using assms
  by (simp add: searchDocumentsExecute_def addDocumentExecute_def searchWithFiltersExecute_def
      notConfigured_def)

theorem missing_credential_fails_fast_witness:
  "searchDocumentsExecute exampleToFixed unconfiguredEnv (exampleServices [shortHit])
       ''q'' ''knowledge-base'' (Finite 5) =
     (Returned (Failure (JStr ''OpenAI API key is not configured'')), []) \<and>
   addDocumentExecute unconfiguredEnv (exampleServices [shortHit]) ''2025-01-01T00:00:00.000Z''
       ''T'' ''C'' ''technology'' ''knowledge-base'' None =
     (Returned (Failure (JStr ''OpenAI API key is not configured'')), []) \<and>
   searchWithFiltersExecute exampleToFixed unconfiguredEnv (exampleServices [shortHit])
       ''q'' ''knowledge-base'' (Finite 5) =
     (Returned (Failure (JStr ''OpenAI API key is not configured'')), [])"
proof -
  have "unset (OPENAI_API_KEY unconfiguredEnv)"
    by (simp add: unconfiguredEnv_def unset_def)
  from missing_credential_fails_fast[OF this] show ?thesis
    by simp
qed

subsection \<open>No validation of the arguments\<close>

text \<open>
  C2, as the claim states it, fails: with the key set, \<open>searchDocuments\<close> with the empty
  query and \<open>topK = 0\<close>, and \<open>searchWithFilters\<close> with the empty query and
  \<open>topK = -3\<close>, are not rejected; both send the embedding request and the index query
  and return \<open>success: true\<close>.
\<close>

theorem search_without_validation_counterexample:
  "searchDocumentsExecute exampleToFixed exampleEnv (exampleServices []) [] ''knowledge-base''
       (Finite 0) =
     (Returned (SearchSuccess [] 0 []),
      [EmbedCall embeddingModel [], QueryCall ''knowledge-base'' [Finite 1] (Finite 0)]) \<and>
   searchWithFiltersExecute exampleToFixed exampleEnv (exampleServices []) [] ''knowledge-base''
       (Finite (- 3)) =
     (Returned (FilterSuccess [] 0 []),
      [EmbedCall embeddingModel [], QueryCall ''knowledge-base'' [Finite 1] (Finite (- 3))])"
  by (simp add: searchDocuments_example searchWithFilters_example)

text \<open>
  C2, amended: a search operation does not reject an input with an empty query text or with
  a finite \<open>topK\<close> that is not positive. For such an input it makes no request exactly
  when the embedding credential is unset; otherwise its first request is the embedding of
  the query text as given, and when that succeeds the index is queried with the \<open>topK\<close>
  as given (5 when none is given).
\<close>

theorem search_rejects_only_without_key:
  assumes "finiteTopK inp"
    and "in_query inp = [] \<or> nonPositiveTopK inp"
    and "k = (case in_topK inp of None \<Rightarrow> Finite 5 | Some k \<Rightarrow> k)"
    and "idx = (case in_indexName inp of None \<Rightarrow> ''knowledge-base'' | Some n \<Rightarrow> n)"
  shows "(snd (searchDocumentsTool tf e svc inp) = []) = unset (OPENAI_API_KEY e) \<and>
         (snd (searchWithFiltersTool tf e svc inp) = []) = unset (OPENAI_API_KEY e) \<and>
         (\<not> unset (OPENAI_API_KEY e) \<longrightarrow>
            (\<exists>rest. snd (searchDocumentsTool tf e svc inp) =
                      EmbedCall embeddingModel (in_query inp) # rest) \<and>
            (\<exists>rest. snd (searchWithFiltersTool tf e svc inp) =
                      EmbedCall embeddingModel (in_query inp) # rest) \<and>
            (\<forall>v. embed svc [] embeddingModel (in_query inp) = Inr v \<longrightarrow>
               snd (searchDocumentsTool tf e svc inp) =
                 [EmbedCall embeddingModel (in_query inp), QueryCall idx v k] \<and>
               snd (searchWithFiltersTool tf e svc inp) =
                 [EmbedCall embeddingModel (in_query inp), QueryCall idx v k]))"
  unfolding searchDocumentsTool_def searchWithFiltersTool_def assms(3)[symmetric] assms(4)[symmetric]
  by (auto simp: searchDocumentsExecute_def searchWithFiltersExecute_def Let_def split: sum.splits)

theorem search_rejects_only_without_key_witness:
  "snd (searchDocumentsTool exampleToFixed exampleEnv (exampleServices [])
          \<lparr> in_query = [], in_indexName = None, in_topK = None \<rparr>) =
     [EmbedCall embeddingModel [], QueryCall ''knowledge-base'' [Finite 1] (Finite 5)] \<and>
   snd (searchWithFiltersTool exampleToFixed exampleEnv (exampleServices [])
          \<lparr> in_query = ''vectors'', in_indexName = None, in_topK = Some (Finite (- 3)) \<rparr>) =
     [EmbedCall embeddingModel ''vectors'', QueryCall ''knowledge-base'' [Finite 1] (Finite (- 3))]"
proof -
  let ?a = "\<lparr> in_query = [], in_indexName = None, in_topK = None \<rparr>"
  let ?b = "\<lparr> in_query = ''vectors'', in_indexName = None, in_topK = Some (Finite (- 3)) \<rparr>"
  have fa: "finiteTopK ?a" and fb: "finiteTopK ?b"
    by (simp_all add: finiteTopK_def)
  have ca: "in_query ?a = [] \<or> nonPositiveTopK ?a"
    by simp
  have cb: "in_query ?b = [] \<or> nonPositiveTopK ?b"
    by (simp add: nonPositiveTopK_def)
  have ka: "Finite 5 = (case in_topK ?a of None \<Rightarrow> Finite 5 | Some k \<Rightarrow> k)"
    and kb: "Finite (- 3) = (case in_topK ?b of None \<Rightarrow> Finite 5 | Some k \<Rightarrow> k)"
    by simp_all
  have na: "''knowledge-base'' =
            (case in_indexName ?a of None \<Rightarrow> ''knowledge-base'' | Some n \<Rightarrow> n)"
    and nb: "''knowledge-base'' =
            (case in_indexName ?b of None \<Rightarrow> ''knowledge-base'' | Some n \<Rightarrow> n)"
    by simp_all
  have e: "embed (exampleServices []) [] embeddingModel x = Inr [Finite 1]" for x
    by (simp add: exampleServices_def)
  from search_rejects_only_without_key[OF fa ca ka na, of exampleToFixed exampleEnv
      "exampleServices []"] exampleEnv_configured e[of "in_query ?a"]
  have 1: "snd (searchDocumentsTool exampleToFixed exampleEnv (exampleServices []) ?a) =
     [EmbedCall embeddingModel (in_query ?a), QueryCall ''knowledge-base'' [Finite 1] (Finite 5)]"
    by blast
  from search_rejects_only_without_key[OF fb cb kb nb, of exampleToFixed exampleEnv
      "exampleServices []"] exampleEnv_configured e[of "in_query ?b"]
  have 2: "snd (searchWithFiltersTool exampleToFixed exampleEnv (exampleServices []) ?b) =
     [EmbedCall embeddingModel (in_query ?b), QueryCall ''knowledge-base'' [Finite 1] (Finite (- 3))]"
    by blast
  from 1 2 show ?thesis
    by simp
qed

section \<open>Properties of the tool boundary\<close>

text \<open>
  C3 fails on the code when a service rejects with \<open>null\<close> (or \<open>undefined\<close>):
  the \<open>catch\<close> block of each of the five tools reads \<open>error.message\<close>, which
  throws a TypeError, and that exception leaves \<open>execute\<close>.
\<close>

theorem tools_nullish_rejection_escapes:
  "fst (searchDocumentsExecute exampleToFixed exampleEnv (rejectingServices JNull)
          ''q'' ''knowledge-base'' (Finite 5)) = EscapedTypeError \<and>
   fst (addDocumentExecute exampleEnv (rejectingServices JNull) ''2025-01-01T00:00:00.000Z''
          ''T'' ''C'' ''technology'' ''knowledge-base'' None) = EscapedTypeError \<and>
   fst (listIndexesExecute (rejectingServices JNull)) = EscapedTypeError \<and>
   fst (getIndexStatsExecute (rejectingServices JNull) ''knowledge-base'') = EscapedTypeError \<and>
   fst (searchWithFiltersExecute exampleToFixed exampleEnv (rejectingServices JNull)
          ''q'' ''knowledge-base'' (Finite 5)) = EscapedTypeError"
  by (simp add: searchDocumentsExecute_def addDocumentExecute_def listIndexesExecute_def
      getIndexStatsExecute_def searchWithFiltersExecute_def rejectingServices_def
      exampleEnv_configured catchBlock_def)

text \<open>
  When every value the services throw has a readable \<open>message\<close> property (any value
  but \<open>undefined\<close> and \<open>null\<close>), each tool returns an object.
\<close>

lemma catchBlock_structured:
  "errorMessage error \<noteq> None \<Longrightarrow> \<exists>m. catchBlock error fallback = Returned (Failure m)"
  by (auto simp: catchBlock_def)

text \<open>
  For a thrown value whose \<open>message\<close> is a string, as for every \<open>Error\<close> object,
  the \<open>error\<close> field is that message, or the fallback when the message is empty.
\<close>

lemma catchBlock_error_string:
  "errorMessage error = Some (JStr m) \<Longrightarrow>
     catchBlock error fallback = Returned (Failure (JStr (if m = [] then fallback else m)))"
  by (simp add: catchBlock_def jsOr_def)

lemma tools_structured_result:
  assumes "\<And>t m v x. embed svc t m v = Inl x \<Longrightarrow> errorMessage x \<noteq> None"
    and "\<And>t n q k x. vs_query svc t n q k = Inl x \<Longrightarrow> errorMessage x \<noteq> None"
    and "\<And>t n vs ms x. vs_upsert svc t n vs ms = Inl x \<Longrightarrow> errorMessage x \<noteq> None"
    and "\<And>t x. vs_listIndexes svc t = Inl x \<Longrightarrow> errorMessage x \<noteq> None"
    and "\<And>t n x. vs_describeIndex svc t n = Inl x \<Longrightarrow> errorMessage x \<noteq> None"
  shows "(\<exists>r. fst (searchDocumentsExecute tf e svc q idx k) = Returned r) \<and>
         (\<exists>r. fst (addDocumentExecute e svc now docTitle docContent docCategory idx tags) = Returned r) \<and>
         (\<exists>r. fst (listIndexesExecute svc) = Returned r) \<and>
         (\<exists>r. fst (getIndexStatsExecute svc idx) = Returned r) \<and>
         (\<exists>r. fst (searchWithFiltersExecute tf e svc q idx k) = Returned r)"
proof (intro conjI)
  show "\<exists>r. fst (searchDocumentsExecute tf e svc q idx k) = Returned r"
    by (auto simp: searchDocumentsExecute_def Let_def catchBlock_def split: sum.splits option.splits
        dest: assms(1) assms(2))
  show "\<exists>r. fst (addDocumentExecute e svc now docTitle docContent docCategory idx tags) = Returned r"
    by (auto simp: addDocumentExecute_def Let_def catchBlock_def split: sum.splits option.splits
        dest: assms(1) assms(3))
  show "\<exists>r. fst (listIndexesExecute svc) = Returned r"
    by (auto simp: listIndexesExecute_def catchBlock_def split: sum.splits option.splits
        dest: assms(4))
  show "\<exists>r. fst (getIndexStatsExecute svc idx) = Returned r"
    by (auto simp: getIndexStatsExecute_def catchBlock_def split: sum.splits option.splits
        dest: assms(5))
  show "\<exists>r. fst (searchWithFiltersExecute tf e svc q idx k) = Returned r"
    by (auto simp: searchWithFiltersExecute_def Let_def catchBlock_def split: sum.splits option.splits
        dest: assms(1) assms(2))
qed

section \<open>Properties of addDocument\<close>

text \<open>
  C4: with the key set, \<open>addDocument\<close> embeds the title, a newline and the content;
  when the embedding succeeds it upserts exactly one vector with exactly one metadata
  object, holding title, content, category, tags (none when absent) and the timestamp read
  at ingestion; when the upsert answers with ids, \<open>documentId\<close> is the first of them.
\<close>

theorem addDocument_upserts_one_record:
  assumes "\<not> unset (OPENAI_API_KEY e)"
    and "text = docTitle @ [CHR 0x0A] @ docContent"
    and "md = [(''title'', JStr docTitle), (''content'', JStr docContent),
               (''category'', JStr docCategory),
               (''tags'', JArr (map JStr (case tags of None \<Rightarrow> [] | Some ts \<Rightarrow> ts))),
               (''timestamp'', JStr now)]"
    and "embed svc [] embeddingModel text = Inr v"
    and "vs_upsert svc [EmbedCall embeddingModel text] idx [v] [md] = Inr (documentId # ids)"
  shows "addDocumentExecute e svc now docTitle docContent docCategory idx tags =
           (Returned (AddSuccess ''Document added successfully'' (Some documentId)
              docTitle docCategory),
            [EmbedCall embeddingModel text, UpsertCall idx [v] [md] ])"
  using assms
  by (simp add: addDocumentExecute_def embeddedText_def documentMetadata_def)

theorem addDocument_upserts_one_record_witness:
  "addDocumentExecute exampleEnv (exampleServices []) ''2025-01-01T00:00:00.000Z''
       ''Vector Databases'' ''Specialized systems'' ''technology'' ''knowledge-base''
       (Some [''vectors'']) =
     (Returned (AddSuccess ''Document added successfully'' (Some ''doc-1'')
        ''Vector Databases'' ''technology''),
      [EmbedCall embeddingModel (''Vector Databases'' @ [CHR 0x0A] @ ''Specialized systems''),
       UpsertCall ''knowledge-base'' [ [Finite 1] ]
         [ [(''title'', JStr ''Vector Databases''), (''content'', JStr ''Specialized systems''),
           (''category'', JStr ''technology''), (''tags'', JArr [JStr ''vectors'']),
           (''timestamp'', JStr ''2025-01-01T00:00:00.000Z'')] ] ])"
proof -
  have e: "embed (exampleServices []) [] embeddingModel
             (''Vector Databases'' @ [CHR 0x0A] @ ''Specialized systems'') = Inr [Finite 1]"
    by (simp add: exampleServices_def)
  have u: "vs_upsert (exampleServices [])
             [EmbedCall embeddingModel (''Vector Databases'' @ [CHR 0x0A] @ ''Specialized systems'')]
             ''knowledge-base'' [ [Finite 1] ]
             [ [(''title'', JStr ''Vector Databases''), (''content'', JStr ''Specialized systems''),
               (''category'', JStr ''technology''),
               (''tags'', JArr (map JStr (case Some [''vectors''] of None \<Rightarrow> [] | Some ts \<Rightarrow> ts))),
               (''timestamp'', JStr ''2025-01-01T00:00:00.000Z'')] ] = Inr (''doc-1'' # [])"
    by (simp add: exampleServices_def)
  from addDocument_upserts_one_record[OF exampleEnv_configured refl refl e u]
  show ?thesis
    by simp
qed

section \<open>Properties of the ingestion script\<close>

lemma strIncludes_iff: "strIncludes m s \<longleftrightarrow> (\<exists>pre post. m = pre @ s @ post)"
proof (induction m)
  case Nil
  then show ?case by auto
next
  case (Cons c m)
  show ?case
  proof
    assume "strIncludes (c # m) s"
    then consider "take (length s) (c # m) = s" | "strIncludes m s"
      by auto
    then show "\<exists>pre post. c # m = pre @ s @ post"
    proof cases
      case 1
      then have "c # m = [] @ s @ drop (length s) (c # m)"
        by (metis append_Nil append_take_drop_id)
      then show ?thesis by blast
    next
      case 2
      then obtain pre post where "m = pre @ s @ post"
        using Cons.IH by blast
      then have "c # m = (c # pre) @ s @ post"
        by simp
      then show ?thesis by blast
    qed
  next
    assume "\<exists>pre post. c # m = pre @ s @ post"
    then obtain pre post where eq: "c # m = pre @ s @ post"
      by blast
    show "strIncludes (c # m) s"
    proof (cases pre)
      case Nil
      then have "take (length s) (c # m) = s"
        using eq by simp
      then show ?thesis by simp
    next
      case (Cons p pre')
      then have "m = pre' @ s @ post"
        using eq by simp
      then have "strIncludes m s"
        using Cons.IH by blast
      then show ?thesis by simp
    qed
  qed
qed

lemma embedDocuments_trace:
  "\<exists>cs. snd (embedDocuments svc t docs acc) = t @ cs \<and> (docs \<noteq> [] \<longrightarrow> cs \<noteq> [])"
proof (induction docs arbitrary: t acc)
  case Nil
  then show ?case by simp
next
  case (Cons doc docs)
  let ?c = "EmbedCall embeddingModel (embeddedText (doc_title doc) (doc_content doc))"
  show ?case
  proof (cases "embed svc t embeddingModel (embeddedText (doc_title doc) (doc_content doc))")
    case (Inl x)
    then show ?thesis by (simp add: Let_def)
  next
    case (Inr v)
    obtain cs where "snd (embedDocuments svc (t @ [?c]) docs (acc @ [v])) = (t @ [?c]) @ cs"
      using Cons.IH by blast
    then show ?thesis
      using Inr by (simp add: Let_def)
  qed
qed

lemma ingest_continues: "\<exists>c rest. snd (ingest svc clock docs idx t0) = t0 @ c # rest"
proof -
  obtain r t1 where ed: "embedDocuments svc t0 docs [] = (r, t1)"
    by (cases "embedDocuments svc t0 docs []")
  obtain cs where t1: "t1 = t0 @ cs" and ne: "docs \<noteq> [] \<longrightarrow> cs \<noteq> []"
    using embedDocuments_trace[of svc t0 docs "[]"] ed by auto
  show ?thesis
  proof (cases r)
    case (Inl x)
    then have "docs \<noteq> []"
      using ed by (cases docs) auto
    then obtain c rest where "cs = c # rest"
      using ne by (cases cs) auto
    then show ?thesis
      using Inl ed t1 by (simp add: ingest_def)
  next
    case (Inr vs)
    then have "\<exists>more. snd (ingest svc clock docs idx t0) = t0 @ cs @ more \<and> more \<noteq> []"
      using ed t1 by (auto simp: ingest_def Let_def split: sum.splits)
    then obtain more where m: "snd (ingest svc clock docs idx t0) = t0 @ cs @ more" "more \<noteq> []"
      by blast
    then obtain c rest where "cs @ more = c # rest"
      by (cases "cs @ more") auto
    then show ?thesis
      using m by simp
  qed
qed

lemma populate_createIndex_ok:
  assumes "\<not> unset (AZURE_AI_SEARCH_ENDPOINT e)" and "\<not> unset (AZURE_AI_SEARCH_CREDENTIAL e)"
    and "\<not> unset (OPENAI_API_KEY e)"
    and "vs_createIndex svc [] ''knowledge-base'' (Finite 1536) ''cosine'' = Inr u"
  shows "populateKnowledgeBase e svc clock docs =
           ingest svc clock docs ''knowledge-base''
             [CreateIndexCall ''knowledge-base'' (Finite 1536) ''cosine'']"
  using assms by (simp add: populateKnowledgeBase_def Let_def)

lemma createIndexCatch_swallows: "createIndexCatch error = None \<longleftrightarrow> alreadyExists error"
  by (cases "optMessage error")
     (simp_all add: createIndexCatch_def alreadyExists_def split: bool.splits)

lemma outerCatch_aborts: "outerCatch error = Exit 1 \<or> outerCatch error = UnhandledRejection"
  by (simp add: outerCatch_def split: option.splits)

text \<open>
  C7: in a configured environment, when \<open>createIndex\<close> fails with an error whose
  message contains \<open>already exists\<close>, the run goes on exactly as after a successful
  \<open>createIndex\<close> and makes at least one more request; when it fails with any other
  value, the run ends without completing (exit code 1, or a rejected promise) and makes no
  further request.
\<close>

theorem createIndex_failure_handling:
  assumes "\<not> unset (AZURE_AI_SEARCH_ENDPOINT e)" and "\<not> unset (AZURE_AI_SEARCH_CREDENTIAL e)"
    and "\<not> unset (OPENAI_API_KEY e)"
    and "vs_createIndex svc [] ''knowledge-base'' (Finite 1536) ''cosine'' = Inl error"
    and "t0 = [CreateIndexCall ''knowledge-base'' (Finite 1536) ''cosine'']"
  shows "(alreadyExists error \<longrightarrow>
            populateKnowledgeBase e svc clock docs = ingest svc clock docs ''knowledge-base'' t0 \<and>
            (\<exists>c rest. snd (populateKnowledgeBase e svc clock docs) = t0 @ c # rest)) \<and>
         (\<not> alreadyExists error \<longrightarrow>
            (fst (populateKnowledgeBase e svc clock docs) = Exit 1 \<or>
             fst (populateKnowledgeBase e svc clock docs) = UnhandledRejection) \<and>
            snd (populateKnowledgeBase e svc clock docs) = t0)"
proof (intro conjI impI)
  assume a: "alreadyExists error"
  then have "createIndexCatch error = None"
    by (simp add: createIndexCatch_swallows)
  then show run: "populateKnowledgeBase e svc clock docs = ingest svc clock docs ''knowledge-base'' t0"
    using assms by (simp add: populateKnowledgeBase_def Let_def)
  show "\<exists>c rest. snd (populateKnowledgeBase e svc clock docs) = t0 @ c # rest"
    unfolding run by (rule ingest_continues)
next
  assume "\<not> alreadyExists error"
  then obtain thrown where c: "createIndexCatch error = Some thrown"
    using createIndexCatch_swallows[of error] by (cases "createIndexCatch error") auto
  then have p: "populateKnowledgeBase e svc clock docs = (outerCatch thrown, t0)"
    using assms by (simp add: populateKnowledgeBase_def Let_def)
  show "fst (populateKnowledgeBase e svc clock docs) = Exit 1 \<or>
        fst (populateKnowledgeBase e svc clock docs) = UnhandledRejection"
    using outerCatch_aborts[of thrown] by (simp add: p)
  show "snd (populateKnowledgeBase e svc clock docs) = t0"
    by (simp add: p)
qed

lemma exampleEnv_azure:
  "\<not> unset (AZURE_AI_SEARCH_ENDPOINT exampleEnv)" "\<not> unset (AZURE_AI_SEARCH_CREDENTIAL exampleEnv)"
  by (simp_all add: exampleEnv_def unset_def)

theorem createIndex_failure_handling_witness:
  "populateKnowledgeBase exampleEnv (failingCreateIndex existsError) exampleClock [exampleDocument] =
     ingest (failingCreateIndex existsError) exampleClock [exampleDocument] ''knowledge-base''
       [CreateIndexCall ''knowledge-base'' (Finite 1536) ''cosine''] \<and>
   (fst (populateKnowledgeBase exampleEnv (failingCreateIndex forbiddenError) exampleClock
           [exampleDocument]) = Exit 1 \<or>
    fst (populateKnowledgeBase exampleEnv (failingCreateIndex forbiddenError) exampleClock
           [exampleDocument]) = UnhandledRejection) \<and>
   snd (populateKnowledgeBase exampleEnv (failingCreateIndex forbiddenError) exampleClock
          [exampleDocument]) = [CreateIndexCall ''knowledge-base'' (Finite 1536) ''cosine'']"
proof -
  have c: "vs_createIndex (failingCreateIndex x) [] ''knowledge-base'' (Finite 1536) ''cosine'' = Inl x"
    for x
    by (simp add: failingCreateIndex_def)
  have yes: "alreadyExists existsError"
    by (simp add: alreadyExists_def optMessage_def existsError_def)
  have no: "\<not> alreadyExists forbiddenError"
    by (simp add: alreadyExists_def optMessage_def forbiddenError_def)
  from createIndex_failure_handling[OF exampleEnv_azure exampleEnv_configured c refl,
      of existsError exampleClock "[exampleDocument]"] yes
  have 1: "populateKnowledgeBase exampleEnv (failingCreateIndex existsError) exampleClock
             [exampleDocument] =
           ingest (failingCreateIndex existsError) exampleClock [exampleDocument] ''knowledge-base''
             [CreateIndexCall ''knowledge-base'' (Finite 1536) ''cosine'']"
    by blast
  from createIndex_failure_handling[OF exampleEnv_azure exampleEnv_configured c refl,
      of forbiddenError exampleClock "[exampleDocument]"] no
  have 2: "(fst (populateKnowledgeBase exampleEnv (failingCreateIndex forbiddenError) exampleClock
           [exampleDocument]) = Exit 1 \<or>
    fst (populateKnowledgeBase exampleEnv (failingCreateIndex forbiddenError) exampleClock
           [exampleDocument]) = UnhandledRejection) \<and>
   snd (populateKnowledgeBase exampleEnv (failingCreateIndex forbiddenError) exampleClock
          [exampleDocument]) = [CreateIndexCall ''knowledge-base'' (Finite 1536) ''cosine'']"
    by blast
  from 1 2 show ?thesis
    by blast
qed

lemma populate_example_run:
  "populateKnowledgeBase exampleEnv (failingCreateIndex existsError) exampleClock [exampleDocument] =
     (Completed,
      [CreateIndexCall ''knowledge-base'' (Finite 1536) ''cosine'',
       EmbedCall embeddingModel (''Vector Databases'' @ [CHR 0x0A] @ ''Specialized systems''),
       UpsertCall ''knowledge-base'' [ [Finite 1] ]
         [ [(''title'', JStr ''Vector Databases''), (''content'', JStr ''Specialized systems''),
           (''category'', JStr ''technology''), (''tags'', JArr [JStr ''vectors'']),
           (''timestamp'', JStr ''2025-01-01T00:00:00.000Z'')] ],
       DescribeIndexCall ''knowledge-base''])"
  by (simp add: populateKnowledgeBase_def exampleEnv_azure exampleEnv_configured
      failingCreateIndex_def exampleServices_def createIndexCatch_def optMessage_def
      existsError_def ingest_def Let_def exampleDocument_def embeddedText_def
      documentMetadata_def exampleClock_def enumerate_eq_zip)

lemma populate_example_abort:
  "populateKnowledgeBase exampleEnv (failingCreateIndex forbiddenError) exampleClock [exampleDocument] =
     (Exit 1, [CreateIndexCall ''knowledge-base'' (Finite 1536) ''cosine''])"
  by (simp add: populateKnowledgeBase_def exampleEnv_azure exampleEnv_configured
      failingCreateIndex_def exampleServices_def createIndexCatch_def optMessage_def
      forbiddenError_def outerCatch_def Let_def)

section \<open>Properties of the recall window\<close>

lemma positionOf_nth:
  "distinct (map msg_id store) \<Longrightarrow> i < length store \<Longrightarrow>
     positionOf store (msg_id (store ! i)) = Some (Suc i)"
proof (induction store arbitrary: i)
  case Nil
  then show ?case by simp
next
  case (Cons m ms)
  show ?case
  proof (cases i)
    case 0
    then show ?thesis by simp
  next
    case (Suc j)
    then have j: "j < length ms"
      using Cons.prems by simp
    then have "msg_id (ms ! j) \<in> set (map msg_id ms)"
      by simp
    then have "msg_id m \<noteq> msg_id (ms ! j)"
      using Cons.prems(1) by auto
    moreover have "positionOf ms (msg_id (ms ! j)) = Some (Suc j)"
      using Cons.IH Cons.prems(1) j by simp
    ultimately show ?thesis
      using Suc by simp
  qed
qed

lemma neighbourhood_eq:
  assumes "1 \<le> p" and "p \<le> length store"
  shows "lastN r (take (p - 1) store) @ [store ! (p - 1)] @ take r (drop p store) =
           drop (p - 1 - r) (take (p + r) store)"
proof -
  have i: "p - 1 < length store"
    using assms by simp
  have split: "store = take (p - 1) store @ store ! (p - 1) # drop p store"
    using id_take_nth_drop[OF i] assms(1) by simp
  have len: "length (take (p - 1) store) = p - 1"
    using assms by simp
  have "take (p + r) store =
          take (p + r) (take (p - 1) store @ store ! (p - 1) # drop p store)"
    using split by simp
  also have "\<dots> = take (p - 1) store @ take (Suc r) (store ! (p - 1) # drop p store)"
    using assms by (simp add: min_absorb2 Suc_diff_le)
  also have "\<dots> = take (p - 1) store @ store ! (p - 1) # take r (drop p store)"
    by simp
  finally have t: "take (p + r) store =
      take (p - 1) store @ store ! (p - 1) # take r (drop p store)" .
  show ?thesis
    unfolding t lastN_def using assms by (simp add: min_absorb2)
qed

lemma find_by_id:
  "distinct (map msg_id store) \<Longrightarrow> m \<in> set store \<Longrightarrow>
     find (\<lambda>x. msg_id x = msg_id m) store = Some m"
  by (induction store) (auto simp: image_iff)

lemma resolve_present:
  "distinct (map msg_id store) \<Longrightarrow> set ms \<subseteq> set store \<Longrightarrow>
     resolve store (map msg_id ms) = ms"
  by (induction ms) (simp_all add: find_by_id)

lemma set_window:
  assumes "distinct xs" and "q < length xs"
  shows "xs ! q \<in> set (drop a (take b xs)) \<longleftrightarrow> a \<le> q \<and> q < b"
proof
  assume "xs ! q \<in> set (drop a (take b xs))"
  then obtain j where j: "j < length (drop a (take b xs))" and e: "drop a (take b xs) ! j = xs ! q"
    by (auto simp: in_set_conv_nth)
  from j have b: "a + j < b" "a + j < length xs"
    by auto
  then have "xs ! (a + j) = xs ! q"
    using e by simp
  then have "a + j = q"
    using assms b by (simp add: nth_eq_iff_index_eq)
  then show "a \<le> q \<and> q < b"
    using b by auto
next
  assume r: "a \<le> q \<and> q < b"
  then have "q - a < length (drop a (take b xs))"
    using assms(2) by auto
  moreover have "drop a (take b xs) ! (q - a) = xs ! q"
    using r assms(2) by simp
  ultimately show "xs ! q \<in> set (drop a (take b xs))"
    by (metis nth_mem)
qed

text \<open>
  C8: with the agent's options (\<open>messageRange = 2\<close>, \<open>lastMessages = 20\<close>) and a
  single hit at position \<open>p\<close> of the conversation, the recall window is exactly the
  existing messages at positions \<open>p - 2\<close> to \<open>p + 2\<close>, without duplicate ids and in
  the original order, and the context holds, beside it, the 20 most recent messages.
\<close>

theorem recall_window_single_hit:
  assumes "distinct (map msg_id store)"
    and "sorted (map created_at store)"
    and "1 \<le> p" and "p \<le> length store"
    and "hit = msg_id (store ! (p - 1))"
    and "w = recalled (emit memoryOptions store [hit])"
  shows "w = drop (p - 3) (take (p + 2) store) \<and>
         (\<forall>q. 1 \<le> q \<and> q \<le> length store \<longrightarrow>
            (store ! (q - 1) \<in> set w) = (int p - 2 \<le> int q \<and> int q \<le> int p + 2)) \<and>
         distinct (map msg_id w) \<and>
         sorted (map created_at w) \<and>
         recent (emit memoryOptions store [hit]) = drop (length store - 20) store"
proof -
  let ?n = "drop (p - 3) (take (p + 2) store)"
  have pos: "positionOf store hit = Some p"
    using positionOf_nth[OF assms(1), of "p - 1"] assms(3,4,5) by simp
  have "expand 2 store hit = map msg_id ?n"
    using neighbourhood_eq[OF assms(3,4), of 2]
    by (simp add: expand_def pos) (simp add: numeral_3_eq_3)
  then have ids: "concat (map (expand (messageRange (semanticRecall memoryOptions)) store) [hit]) =
      map msg_id ?n"
    by (simp add: memoryOptions_def)
  have d: "distinct (map msg_id ?n)"
    using assms(1) by (simp flip: drop_map take_map)
  have sub: "set ?n \<subseteq> set store"
    by (meson set_drop_subset set_take_subset subset_trans)
  have s: "sorted (map created_at ?n)"
    using assms(2) by (simp flip: drop_map take_map)
  have "recallWindow memoryOptions store [hit] = sort_key created_at (resolve store (map msg_id ?n))"
    unfolding recallWindow_def ids using d by (simp add: distinct_remdups_id)
  also have "\<dots> = sort_key created_at ?n"
    using resolve_present[OF assms(1) sub] by simp
  also have "\<dots> = ?n"
    using s by (rule sort_key_id_if_sorted)
  finally have w: "w = ?n"
    by (simp add: assms(6) emit_def)
  have ds: "distinct store"
    using assms(1) by (rule distinct_map[THEN iffD1, THEN conjunct1])
  have mem: "(store ! (q - 1) \<in> set ?n) = (int p - 2 \<le> int q \<and> int q \<le> int p + 2)"
    if "1 \<le> q \<and> q \<le> length store" for q
  proof -
    have "q - 1 < length store"
      using that by arith
    from set_window[OF ds this, of "p - 3" "p + 2"] show ?thesis
      using that by (simp add: numeral_3_eq_3) arith
  qed
  show ?thesis
    unfolding w using d s mem by (simp add: emit_def lastN_def memoryOptions_def)
qed

lemma exampleThread_ids: "distinct (map msg_id exampleThread)"
  by (simp add: exampleThread_def)

lemma exampleThread_order: "sorted (map created_at exampleThread)"
  by (simp add: exampleThread_def)

theorem recall_window_single_hit_witness:
  "recalled (emit memoryOptions exampleThread [''m10'']) = drop 7 exampleThread \<and>
   map msg_id (drop 7 exampleThread) = [''m08'', ''m09'', ''m10'', ''m11'', ''m12''] \<and>
   recent (emit memoryOptions exampleThread [''m10'']) = exampleThread"
proof -
  have p: "(1::nat) \<le> 10" "10 \<le> length exampleThread"
    by (simp_all add: exampleThread_def)
  have h: "''m10'' = msg_id (exampleThread ! (10 - 1))"
    by (simp add: exampleThread_def)
  have t: "take (10 + 2) exampleThread = exampleThread"
    by (simp add: exampleThread_def)
  have l: "length exampleThread - 20 = 0"
    by (simp add: exampleThread_def)
  have i: "map msg_id (drop 7 exampleThread) = [''m08'', ''m09'', ''m10'', ''m11'', ''m12'']"
    by (simp add: exampleThread_def)
  from recall_window_single_hit[OF exampleThread_ids exampleThread_order p h refl]
  have "recalled (emit memoryOptions exampleThread [''m10'']) =
          drop (10 - 3) (take (10 + 2) exampleThread) \<and>
        recent (emit memoryOptions exampleThread [''m10'']) =
          drop (length exampleThread - 20) exampleThread"
    by blast
  then show ?thesis
    unfolding t l using i by simp
qed

end
